theory Spec2Isabelle
  imports Main
begin

section \<open>Go values the handlers work with\<close>

text \<open>
  The program is a Go HTTP server (\<^verbatim>\<open>main.go\<close>) with a Windows service wrapper
  (\<^verbatim>\<open>service_windows.go\<close>). Its handlers call a few functions of the Go standard
  library: \<^verbatim>\<open>strconv.Itoa\<close>, \<^verbatim>\<open>encoding/json\<close>'s \<^verbatim>\<open>Decoder.Decode\<close>,
  \<^verbatim>\<open>time.Duration\<close>'s \<^verbatim>\<open>Round\<close> and \<^verbatim>\<open>String\<close>, \<^verbatim>\<open>errors.New\<close>,
  \<^verbatim>\<open>fmt.Errorf\<close> and \<^verbatim>\<open>errors.Is\<close>. This section models those library functions
  after the Go 1.24 sources; the sections after it embed the repository's own functions.
  Go's \<^verbatim>\<open>int\<close> is 64 bits wide on the build target (windows/amd64); it is modelled as
  \<^typ>\<open>int\<close>, with the range check written out where the library checks it and the
  wrap-around written out where the arithmetic can overflow.
\<close>

subsection \<open>Errors\<close>

text \<open>
  An error value is one of: the sentinels \<^verbatim>\<open>io.EOF\<close> and \<^verbatim>\<open>io.ErrUnexpectedEOF\<close>;
  a \<^verbatim>\<open>*json.SyntaxError\<close> (kept as the offending byte and the scanner's context
  text); a \<^verbatim>\<open>*json.UnmarshalTypeError\<close> (its \<^verbatim>\<open>Value\<close> and \<^verbatim>\<open>Field\<close>);
  \<^verbatim>\<open>errors.New(text)\<close>; \<^verbatim>\<open>fmt.Errorf(prefix + "%w", err)\<close>, which wraps
  \<^verbatim>\<open>err\<close>; an error of \<^verbatim>\<open>os/exec\<close> and an error of \<^verbatim>\<open>net\<close>, each with the
  text the operating system gave; and the sentinels \<^verbatim>\<open>http.ErrServerClosed\<close> and
  \<^verbatim>\<open>context.Canceled\<close>.
\<close>

datatype go_error =
    io_EOF
  | io_ErrUnexpectedEOF
  | http_ErrServerClosed
  | context_Canceled
  | json_SyntaxError char string
  | json_UnmarshalTypeError string string
  | errors_New string
  | fmt_Errorf_w string go_error
  | exec_error string
  | net_error string

text \<open>
  \<^verbatim>\<open>err.Error()\<close>. The texts of the two \<^verbatim>\<open>encoding/json\<close> error types depend on
  the library version, so their rendering is a parameter \<open>lib\<close>.
\<close>

fun Error :: "(go_error \<Rightarrow> string) \<Rightarrow> go_error \<Rightarrow> string" where
  "Error lib io_EOF = ''EOF''"
| "Error lib io_ErrUnexpectedEOF = ''unexpected EOF''"
| "Error lib (errors_New s) = s"
| "Error lib (fmt_Errorf_w prefix e) = prefix @ Error lib e"
| "Error lib (exec_error s) = s"
| "Error lib (net_error s) = s"
| "Error lib http_ErrServerClosed = ''http: Server closed''"
| "Error lib context_Canceled = ''context canceled''"
| "Error lib (json_SyntaxError c ctx) = lib (json_SyntaxError c ctx)"
| "Error lib (json_UnmarshalTypeError v f) = lib (json_UnmarshalTypeError v f)"

text \<open>\<^verbatim>\<open>errors.Is(err, target)\<close>: \<open>err\<close> or an error it wraps is \<open>target\<close>.\<close>

fun errors_Is :: "go_error \<Rightarrow> go_error \<Rightarrow> bool" where
  "errors_Is (fmt_Errorf_w prefix e) target =
     (fmt_Errorf_w prefix e = target \<or> errors_Is e target)"
| "errors_Is e target = (e = target)"

subsection \<open>strconv.Itoa and strconv.ParseInt\<close>

definition digitChar :: "nat \<Rightarrow> char" where
  "digitChar d = ''0123456789'' ! d"

text \<open>The decimal digits of a natural number, most significant first.\<close>

fun formatDecimal :: "nat \<Rightarrow> string" where
  "formatDecimal n =
     (if n < 10 then [digitChar n]
      else formatDecimal (n div 10) @ [digitChar (n mod 10)])"

declare formatDecimal.simps [simp del]

definition Itoa :: "int \<Rightarrow> string" where
  "Itoa i = (if i < 0 then CHR ''-'' # formatDecimal (nat (- i)) else formatDecimal (nat i))"

definition isDigit :: "char \<Rightarrow> bool" where
  "isDigit c = (c \<in> set ''0123456789'')"

definition digitVal :: "char \<Rightarrow> nat" where
  "digitVal c = of_char c - 48"

definition decimalValue :: "string \<Rightarrow> nat" where
  "decimalValue ds = foldl (\<lambda>acc c. 10 * acc + digitVal c) 0 ds"

text \<open>
  \<^verbatim>\<open>strconv.ParseInt(s, 10, 64)\<close>: an optional sign, then one or more decimal digits;
  \<open>None\<close> stands for its syntax and range errors (the value must lie in
  \<open>-2^63 .. 2^63 - 1\<close>).
\<close>

definition ParseInt :: "string \<Rightarrow> int option" where
  "ParseInt s =
     (let neg = (take 1 s = ''-'');
          ds = (if take 1 s = ''+'' \<or> take 1 s = ''-'' then drop 1 s else s);
          un = decimalValue ds
      in if ds = [] then None
         else if list_ex (\<lambda>c. \<not> isDigit c) ds then None
         else if neg then (if un > 9223372036854775808 then None else Some (- int un))
         else (if un \<ge> 9223372036854775808 then None else Some (int un)))"

subsection \<open>encoding/json: the scanner\<close>

text \<open>
  \<^verbatim>\<open>scanner.go\<close>: a pushdown automaton over the bytes. \<^verbatim>\<open>s.step\<close> is the current
  state function, \<^verbatim>\<open>s.parseState\<close> the stack of open containers (here with its top
  at the head of the list), and each step returns an opcode.
\<close>

datatype opcode =
    scanContinue | scanBeginLiteral | scanBeginObject | scanObjectKey
  | scanObjectValue | scanEndObject | scanBeginArray | scanArrayValue
  | scanEndArray | scanSkipSpace | scanEnd | scanError

datatype parseState = parseObjectKey | parseObjectValue | parseArrayValue

datatype stepFn =
    BeginValueOrEmpty | BeginValue | BeginStringOrEmpty | BeginString
  | EndValue | EndTop
  | InString | InStringEsc | InStringEscU | InStringEscU1 | InStringEscU12 | InStringEscU123
  | Neg | Digit1 | Digit0 | Dot | Dot0 | Exp | ExpSign | Exp0
  | LitT | LitTr | LitTru | LitF | LitFa | LitFal | LitFals | LitN | LitNu | LitNul
  | StateError

record scanner =
  step :: stepFn
  parseState :: "parseState list"
  endTop :: bool
  err :: "go_error option"

definition maxNestingDepth :: nat where
  "maxNestingDepth = 10000"

definition scanner_reset :: scanner where
  "scanner_reset = \<lparr>step = BeginValue, parseState = [], endTop = False, err = None\<rparr>"

definition isSpace :: "char \<Rightarrow> bool" where
  "isSpace c = (c = CHR '' '' \<or> c = CHR 0x09 \<or> c = CHR 0x0D \<or> c = CHR 0x0A)"

definition isHex :: "char \<Rightarrow> bool" where
  "isHex c = (c \<in> set ''0123456789abcdefABCDEF'')"

definition scanner_error :: "scanner \<Rightarrow> char \<Rightarrow> string \<Rightarrow> opcode \<times> scanner" where
  "scanner_error s c ctx =
     (scanError, s\<lparr>step := StateError, err := Some (json_SyntaxError c ctx)\<rparr>)"

definition pushParseState ::
  "scanner \<Rightarrow> char \<Rightarrow> parseState \<Rightarrow> opcode \<Rightarrow> opcode \<times> scanner" where
  "pushParseState s c newParseState successState =
     (let s1 = s\<lparr>parseState := newParseState # parseState s\<rparr>
      in if length (parseState s1) \<le> maxNestingDepth then (successState, s1)
         else scanner_error s1 c ''exceeded max depth'')"

definition popParseState :: "scanner \<Rightarrow> scanner" where
  "popParseState s =
     (let rest = tl (parseState s)
      in if rest = [] then s\<lparr>parseState := rest, step := EndTop, endTop := True\<rparr>
         else s\<lparr>parseState := rest, step := EndValue\<rparr>)"

definition stateEndTop :: "scanner \<Rightarrow> char \<Rightarrow> opcode \<times> scanner" where
  "stateEndTop s c =
     (if \<not> isSpace c then (scanEnd, snd (scanner_error s c ''after top-level value''))
      else (scanEnd, s))"

definition stateEndValue :: "scanner \<Rightarrow> char \<Rightarrow> opcode \<times> scanner" where
  "stateEndValue s c =
     (case parseState s of
        [] \<Rightarrow> stateEndTop (s\<lparr>step := EndTop, endTop := True\<rparr>) c
      | ps # rest \<Rightarrow>
          if isSpace c then (scanSkipSpace, s\<lparr>step := EndValue\<rparr>)
          else (case ps of
              parseObjectKey \<Rightarrow>
                if c = CHR '':''
                then (scanObjectKey, s\<lparr>parseState := parseObjectValue # rest, step := BeginValue\<rparr>)
                else scanner_error s c ''after object key''
            | parseObjectValue \<Rightarrow>
                if c = CHR '',''
                then (scanObjectValue, s\<lparr>parseState := parseObjectKey # rest, step := BeginString\<rparr>)
                else if c = CHR ''}'' then (scanEndObject, popParseState s)
                else scanner_error s c ''after object key:value pair''
            | parseArrayValue \<Rightarrow>
                if c = CHR '','' then (scanArrayValue, s\<lparr>step := BeginValue\<rparr>)
                else if c = CHR '']'' then (scanEndArray, popParseState s)
                else scanner_error s c ''after array element''))"

definition stateBeginValue :: "scanner \<Rightarrow> char \<Rightarrow> opcode \<times> scanner" where
  "stateBeginValue s c =
     (if isSpace c then (scanSkipSpace, s)
      else if c = CHR ''{'' then pushParseState (s\<lparr>step := BeginStringOrEmpty\<rparr>) c parseObjectKey scanBeginObject
      else if c = CHR ''['' then pushParseState (s\<lparr>step := BeginValueOrEmpty\<rparr>) c parseArrayValue scanBeginArray
      else if c = CHR 0x22 then (scanBeginLiteral, s\<lparr>step := InString\<rparr>)
      else if c = CHR ''-'' then (scanBeginLiteral, s\<lparr>step := Neg\<rparr>)
      else if c = CHR ''0'' then (scanBeginLiteral, s\<lparr>step := Digit0\<rparr>)
      else if c = CHR ''t'' then (scanBeginLiteral, s\<lparr>step := LitT\<rparr>)
      else if c = CHR ''f'' then (scanBeginLiteral, s\<lparr>step := LitF\<rparr>)
      else if c = CHR ''n'' then (scanBeginLiteral, s\<lparr>step := LitN\<rparr>)
      else if isDigit c then (scanBeginLiteral, s\<lparr>step := Digit1\<rparr>)
      else scanner_error s c ''looking for beginning of value'')"

definition stateBeginValueOrEmpty :: "scanner \<Rightarrow> char \<Rightarrow> opcode \<times> scanner" where
  "stateBeginValueOrEmpty s c =
     (if isSpace c then (scanSkipSpace, s)
      else if c = CHR '']'' then stateEndValue s c
      else stateBeginValue s c)"

definition stateBeginString :: "scanner \<Rightarrow> char \<Rightarrow> opcode \<times> scanner" where
  "stateBeginString s c =
     (if isSpace c then (scanSkipSpace, s)
      else if c = CHR 0x22 then (scanBeginLiteral, s\<lparr>step := InString\<rparr>)
      else scanner_error s c ''looking for beginning of object key string'')"

definition stateBeginStringOrEmpty :: "scanner \<Rightarrow> char \<Rightarrow> opcode \<times> scanner" where
  "stateBeginStringOrEmpty s c =
     (if isSpace c then (scanSkipSpace, s)
      else if c = CHR ''}''
      then stateEndValue (s\<lparr>parseState := parseObjectValue # tl (parseState s)\<rparr>) c
      else stateBeginString s c)"

definition stateInString :: "scanner \<Rightarrow> char \<Rightarrow> opcode \<times> scanner" where
  "stateInString s c =
     (if c = CHR 0x22 then (scanContinue, s\<lparr>step := EndValue\<rparr>)
      else if c = CHR 0x5C then (scanContinue, s\<lparr>step := InStringEsc\<rparr>)
      else if (of_char c :: nat) < 32 then scanner_error s c ''in string literal''
      else (scanContinue, s))"

definition stateInStringEsc :: "scanner \<Rightarrow> char \<Rightarrow> opcode \<times> scanner" where
  "stateInStringEsc s c =
     (if c \<in> set [CHR ''b'', CHR ''f'', CHR ''n'', CHR ''r'', CHR ''t'', CHR 0x5C, CHR ''/'', CHR 0x22]
      then (scanContinue, s\<lparr>step := InString\<rparr>)
      else if c = CHR ''u'' then (scanContinue, s\<lparr>step := InStringEscU\<rparr>)
      else scanner_error s c ''in string escape code'')"

text \<open>
  \<^verbatim>\<open>stateInStringEscU\<close>, \<^verbatim>\<open>...U1\<close>, \<^verbatim>\<open>...U12\<close>, \<^verbatim>\<open>...U123\<close>: the four
  hexadecimal digits of a \<^verbatim>\<open>\u\<close> escape; \<open>next\<close> is the state after the digit.
\<close>

definition stateInStringEscU :: "stepFn \<Rightarrow> scanner \<Rightarrow> char \<Rightarrow> opcode \<times> scanner" where
  "stateInStringEscU next s c =
     (if isHex c then (scanContinue, s\<lparr>step := next\<rparr>)
      else scanner_error s c (CHR ''i'' # CHR ''n'' # CHR '' '' # CHR 0x5C # ''u hexadecimal character escape''))"

definition stateNeg :: "scanner \<Rightarrow> char \<Rightarrow> opcode \<times> scanner" where
  "stateNeg s c =
     (if c = CHR ''0'' then (scanContinue, s\<lparr>step := Digit0\<rparr>)
      else if isDigit c then (scanContinue, s\<lparr>step := Digit1\<rparr>)
      else scanner_error s c ''in numeric literal'')"

definition state0 :: "scanner \<Rightarrow> char \<Rightarrow> opcode \<times> scanner" where
  "state0 s c =
     (if c = CHR ''.'' then (scanContinue, s\<lparr>step := Dot\<rparr>)
      else if c = CHR ''e'' \<or> c = CHR ''E'' then (scanContinue, s\<lparr>step := Exp\<rparr>)
      else stateEndValue s c)"

definition state1 :: "scanner \<Rightarrow> char \<Rightarrow> opcode \<times> scanner" where
  "state1 s c =
     (if isDigit c then (scanContinue, s\<lparr>step := Digit1\<rparr>)
      else state0 s c)"

definition stateDot :: "scanner \<Rightarrow> char \<Rightarrow> opcode \<times> scanner" where
  "stateDot s c =
     (if isDigit c then (scanContinue, s\<lparr>step := Dot0\<rparr>)
      else scanner_error s c ''after decimal point in numeric literal'')"

definition stateDot0 :: "scanner \<Rightarrow> char \<Rightarrow> opcode \<times> scanner" where
  "stateDot0 s c =
     (if isDigit c then (scanContinue, s)
      else if c = CHR ''e'' \<or> c = CHR ''E'' then (scanContinue, s\<lparr>step := Exp\<rparr>)
      else stateEndValue s c)"

definition stateESign :: "scanner \<Rightarrow> char \<Rightarrow> opcode \<times> scanner" where
  "stateESign s c =
     (if isDigit c then (scanContinue, s\<lparr>step := Exp0\<rparr>)
      else scanner_error s c ''in exponent of numeric literal'')"

definition stateE :: "scanner \<Rightarrow> char \<Rightarrow> opcode \<times> scanner" where
  "stateE s c =
     (if c = CHR ''+'' \<or> c = CHR ''-'' then (scanContinue, s\<lparr>step := ExpSign\<rparr>)
      else stateESign s c)"

definition stateE0 :: "scanner \<Rightarrow> char \<Rightarrow> opcode \<times> scanner" where
  "stateE0 s c =
     (if isDigit c then (scanContinue, s)
      else stateEndValue s c)"

text \<open>
  \<^verbatim>\<open>stateT\<close>, \<^verbatim>\<open>stateTr\<close>, ... \<^verbatim>\<open>stateNul\<close>: the letters of \<^verbatim>\<open>true\<close>,
  \<^verbatim>\<open>false\<close> and \<^verbatim>\<open>null\<close> after the first; \<open>want\<close> is the letter expected,
  \<open>next\<close> the state after it and \<open>ctx\<close> the error context.
\<close>

definition stateLetter ::
  "char \<Rightarrow> stepFn \<Rightarrow> string \<Rightarrow> scanner \<Rightarrow> char \<Rightarrow> opcode \<times> scanner" where
  "stateLetter want next ctx s c =
     (if c = want then (scanContinue, s\<lparr>step := next\<rparr>)
      else scanner_error s c ctx)"

text \<open>\<^verbatim>\<open>s.step(s, c)\<close>: the call through the state function pointer.\<close>

definition scanner_step :: "scanner \<Rightarrow> char \<Rightarrow> opcode \<times> scanner" where
  "scanner_step s c =
     (case step s of
        BeginValueOrEmpty \<Rightarrow> stateBeginValueOrEmpty s c
      | BeginValue \<Rightarrow> stateBeginValue s c
      | BeginStringOrEmpty \<Rightarrow> stateBeginStringOrEmpty s c
      | BeginString \<Rightarrow> stateBeginString s c
      | EndValue \<Rightarrow> stateEndValue s c
      | EndTop \<Rightarrow> stateEndTop s c
      | InString \<Rightarrow> stateInString s c
      | InStringEsc \<Rightarrow> stateInStringEsc s c
      | InStringEscU \<Rightarrow> stateInStringEscU InStringEscU1 s c
      | InStringEscU1 \<Rightarrow> stateInStringEscU InStringEscU12 s c
      | InStringEscU12 \<Rightarrow> stateInStringEscU InStringEscU123 s c
      | InStringEscU123 \<Rightarrow> stateInStringEscU InString s c
      | Neg \<Rightarrow> stateNeg s c
      | Digit1 \<Rightarrow> state1 s c
      | Digit0 \<Rightarrow> state0 s c
      | Dot \<Rightarrow> stateDot s c
      | Dot0 \<Rightarrow> stateDot0 s c
      | Exp \<Rightarrow> stateE s c
      | ExpSign \<Rightarrow> stateESign s c
      | Exp0 \<Rightarrow> stateE0 s c
      | LitT \<Rightarrow> stateLetter (CHR ''r'') LitTr ''in literal true (expecting 'r')'' s c
      | LitTr \<Rightarrow> stateLetter (CHR ''u'') LitTru ''in literal true (expecting 'u')'' s c
      | LitTru \<Rightarrow> stateLetter (CHR ''e'') EndValue ''in literal true (expecting 'e')'' s c
      | LitF \<Rightarrow> stateLetter (CHR ''a'') LitFa ''in literal false (expecting 'a')'' s c
      | LitFa \<Rightarrow> stateLetter (CHR ''l'') LitFal ''in literal false (expecting 'l')'' s c
      | LitFal \<Rightarrow> stateLetter (CHR ''s'') LitFals ''in literal false (expecting 's')'' s c
      | LitFals \<Rightarrow> stateLetter (CHR ''e'') EndValue ''in literal false (expecting 'e')'' s c
      | LitN \<Rightarrow> stateLetter (CHR ''u'') LitNu ''in literal null (expecting 'u')'' s c
      | LitNu \<Rightarrow> stateLetter (CHR ''l'') LitNul ''in literal null (expecting 'l')'' s c
      | LitNul \<Rightarrow> stateLetter (CHR ''l'') EndValue ''in literal null (expecting 'l')'' s c
      | StateError \<Rightarrow> (scanError, s))"

subsection \<open>encoding/json: Decoder.readValue\<close>

definition nonSpace :: "string \<Rightarrow> bool" where
  "nonSpace b = list_ex (\<lambda>c. \<not> isSpace c) b"

text \<open>
  \<^verbatim>\<open>readValue\<close> of a fresh decoder over a reader that delivers the bytes \<open>buf\<close> and
  then \<^verbatim>\<open>io.EOF\<close>: it scans for the end of the first JSON value and returns the number
  of bytes the value takes (leading white space included), or an error. \<open>scanp\<close> counts
  the bytes scanned so far; the last argument holds the bytes not scanned yet. The bytes
  after the value are never looked at.
\<close>

fun readValue_scan :: "string \<Rightarrow> scanner \<Rightarrow> nat \<Rightarrow> string \<Rightarrow> go_error + nat" where
  "readValue_scan buf s scanp [] =
     (if fst (scanner_step s (CHR '' '')) = scanEnd then Inr scanp
      else if nonSpace buf then Inl io_ErrUnexpectedEOF
      else Inl io_EOF)"
| "readValue_scan buf s scanp (c # cs) =
     (case scanner_step s c of (opc, s1) \<Rightarrow>
        if opc = scanEnd then Inr scanp
        else if opc = scanEndObject \<or> opc = scanEndArray
        then (case stateEndValue s1 (CHR '' '') of (opc2, s2) \<Rightarrow>
                if opc2 = scanEnd then Inr (scanp + 1)
                else readValue_scan buf s2 (scanp + 1) cs)
        else if opc = scanError
        then (case err s1 of Some e \<Rightarrow> Inl e | None \<Rightarrow> Inr 0)
        else readValue_scan buf s1 (scanp + 1) cs)"

definition readValue :: "string \<Rightarrow> go_error + nat" where
  "readValue buf = readValue_scan buf scanner_reset 0 buf"

subsection \<open>encoding/json: unquoting an object key\<close>

text \<open>
  Runes (Unicode code points) are natural numbers. \<^verbatim>\<open>utf8.DecodeRune\<close> returns the
  rune at the head of the bytes and its width; an ill-formed sequence gives
  \<^verbatim>\<open>RuneError\<close> (U+FFFD) with width 1.
\<close>

definition RuneError :: nat where
  "RuneError = 0xFFFD"

definition isCont :: "nat \<Rightarrow> bool" where
  "isCont b = (0x80 \<le> b \<and> b \<le> 0xBF)"

definition DecodeRune :: "string \<Rightarrow> nat \<times> nat" where
  "DecodeRune p =
     (case map of_char p of
        [] \<Rightarrow> (RuneError, 0)
      | p0 # rest \<Rightarrow>
          if p0 < 0x80 then (p0, 1)
          else if 0xC2 \<le> p0 \<and> p0 \<le> 0xDF then
            (case rest of
               b1 # _ \<Rightarrow>
                 if isCont b1 then ((p0 mod 32) * 64 + b1 mod 64, 2) else (RuneError, 1)
             | _ \<Rightarrow> (RuneError, 1))
          else if 0xE0 \<le> p0 \<and> p0 \<le> 0xEF then
            (case rest of
               b1 # b2 # _ \<Rightarrow>
                 if (if p0 = 0xE0 then 0xA0 else 0x80) \<le> b1
                    \<and> b1 \<le> (if p0 = 0xED then 0x9F else 0xBF) \<and> isCont b2
                 then (((p0 mod 16) * 64 + b1 mod 64) * 64 + b2 mod 64, 3)
                 else (RuneError, 1)
             | _ \<Rightarrow> (RuneError, 1))
          else if 0xF0 \<le> p0 \<and> p0 \<le> 0xF4 then
            (case rest of
               b1 # b2 # b3 # _ \<Rightarrow>
                 if (if p0 = 0xF0 then 0x90 else 0x80) \<le> b1
                    \<and> b1 \<le> (if p0 = 0xF4 then 0x8F else 0xBF) \<and> isCont b2 \<and> isCont b3
                 then ((((p0 mod 8) * 64 + b1 mod 64) * 64 + b2 mod 64) * 64 + b3 mod 64, 4)
                 else (RuneError, 1)
             | _ \<Rightarrow> (RuneError, 1))
          else (RuneError, 1))"

definition hexVal :: "char \<Rightarrow> nat" where
  "hexVal c =
     (if isDigit c then of_char c - 48
      else if c \<in> set ''abcdef'' then of_char c - 87
      else of_char c - 55)"

text \<open>\<^verbatim>\<open>getu4\<close>: the value of a \<^verbatim>\<open>\uXXXX\<close> escape at the head of the bytes.\<close>

definition getu4 :: "string \<Rightarrow> nat option" where
  "getu4 s =
     (if length s < 6 \<or> take 2 s \<noteq> [CHR 0x5C, CHR ''u''] then None
      else if list_ex (\<lambda>c. \<not> isHex c) (take 4 (drop 2 s)) then None
      else Some (foldl (\<lambda>r c. r * 16 + hexVal c) 0 (take 4 (drop 2 s))))"

definition utf16_IsSurrogate :: "nat \<Rightarrow> bool" where
  "utf16_IsSurrogate r = (0xD800 \<le> r \<and> r < 0xE000)"

definition utf16_DecodeRune :: "nat \<Rightarrow> nat option \<Rightarrow> nat" where
  "utf16_DecodeRune r1 r2opt =
     (case r2opt of
        None \<Rightarrow> RuneError
      | Some r2 \<Rightarrow>
          if 0xD800 \<le> r1 \<and> r1 < 0xDC00 \<and> 0xDC00 \<le> r2 \<and> r2 < 0xE000
          then (r1 - 0xD800) * 1024 + (r2 - 0xDC00) + 0x10000
          else RuneError)"

text \<open>
  One round of the loop of \<^verbatim>\<open>unquoteBytes\<close>: the rune that the head of \<open>s\<close> stands
  for and the number of bytes it takes. (The scanner has checked the literal, so a
  backslash is followed by one of the escape letters.)
\<close>

definition unquoteAt :: "string \<Rightarrow> nat \<times> nat" where
  "unquoteAt s =
     (case s of
        [] \<Rightarrow> (RuneError, 0)
      | c # rest \<Rightarrow>
          if c = CHR 0x5C then
            (case rest of
               [] \<Rightarrow> (RuneError, 1)
             | e # _ \<Rightarrow>
                 if e = CHR ''u'' then
                   (case getu4 s of
                      None \<Rightarrow> (RuneError, 2)
                    | Some rr \<Rightarrow>
                        if utf16_IsSurrogate rr then
                          (let dec = utf16_DecodeRune rr (getu4 (drop 6 s))
                           in if dec \<noteq> RuneError then (dec, 12) else (RuneError, 6))
                        else (rr, 6))
                 else if e = CHR ''b'' then (8, 2)
                 else if e = CHR ''f'' then (12, 2)
                 else if e = CHR ''n'' then (10, 2)
                 else if e = CHR ''r'' then (13, 2)
                 else if e = CHR ''t'' then (9, 2)
                 else (of_char e, 2))
          else if (of_char c :: nat) < 0x80 then (of_char c, 1)
          else DecodeRune s)"

text \<open>
  \<^verbatim>\<open>unquoteBytes\<close> on the bytes between the quotes, as the list of runes whose UTF-8
  encoding Go returns; \<open>skip\<close> counts the bytes still to pass over, which belong to
  the rune read last.
\<close>

fun unquoteFrom :: "nat \<Rightarrow> string \<Rightarrow> nat list" where
  "unquoteFrom skip [] = []"
| "unquoteFrom skip (c # cs) =
     (if skip > 0 then unquoteFrom (skip - 1) cs
      else (case unquoteAt (c # cs) of (r, w) \<Rightarrow> r # unquoteFrom (w - 1) cs))"

definition unquote :: "string \<Rightarrow> nat list" where
  "unquote item = unquoteFrom 0 (butlast (tl item))"

text \<open>
  The struct has the one field \<^verbatim>\<open>DelaySeconds int `json:"delaySeconds"`\<close>. A key
  selects it when it is the name exactly, or when \<^verbatim>\<open>foldName\<close> of the key equals
  \<^verbatim>\<open>foldName\<close> of the name, which is \<^verbatim>\<open>DELAYSECONDS\<close>. \<^verbatim>\<open>foldName\<close> maps every
  rune to the least rune of its orbit under Unicode simple case folding. The orbits that
  hold an ASCII letter are the letter's two cases, with U+017F (long s) added for S and
  U+212A (Kelvin sign) for K; \<open>foldRune\<close> is exact on those runes and leaves every other
  rune unchanged, where Go gives some rune that is not an ASCII letter either, so the
  comparison with \<^verbatim>\<open>DELAYSECONDS\<close> comes out as in Go.
\<close>

definition foldRune :: "nat \<Rightarrow> nat" where
  "foldRune r =
     (if 97 \<le> r \<and> r \<le> 122 then r - 32
      else if r = 0x17F then 83
      else if r = 0x212A then 75
      else r)"

definition fieldMatch :: "string \<Rightarrow> bool" where
  "fieldMatch keyItem =
     (unquote keyItem = map of_char ''delaySeconds''
      \<or> map foldRune (unquote keyItem) = map of_char ''DELAYSECONDS'')"

subsection \<open>encoding/json: unmarshalling into the payload struct\<close>

text \<open>
  \<^verbatim>\<open>parseDelay\<close> decodes into
  \<^verbatim>\<open>var payload struct { DelaySeconds int `json:"delaySeconds"` }\<close>.
\<close>

record payload =
  DelaySeconds :: int

text \<open>
  The decoder's state: the value being filled, the first error saved by
  \<^verbatim>\<open>saveError\<close>, and the bytes of the key and of the literal value of the member of
  the top-level object that is being read.
\<close>

record decodeState =
  target :: payload
  savedError :: "go_error option"
  keyItem :: string
  valueItem :: string

definition saveError :: "go_error \<Rightarrow> decodeState \<Rightarrow> decodeState" where
  "saveError e d = (if savedError d = None then d\<lparr>savedError := Some e\<rparr> else d)"

text \<open>
  \<^verbatim>\<open>literalStore\<close> of a literal into the \<^verbatim>\<open>int\<close> field: \<^verbatim>\<open>null\<close> leaves the
  field as it is; a string, \<^verbatim>\<open>true\<close> or \<^verbatim>\<open>false\<close> is a type error; a number goes
  through \<^verbatim>\<open>strconv.ParseInt\<close>, and one that is no integer of 64 bits is a type error.
\<close>

definition literalStore_field :: "string \<Rightarrow> decodeState \<Rightarrow> decodeState" where
  "literalStore_field item d =
     (case item of
        [] \<Rightarrow> d
      | c # _ \<Rightarrow>
          if c = CHR ''n'' then d
          else if c = CHR ''t'' \<or> c = CHR ''f''
          then saveError (json_UnmarshalTypeError ''bool'' ''delaySeconds'') d
          else if c = CHR 0x22
          then saveError (json_UnmarshalTypeError ''string'' ''delaySeconds'') d
          else (case ParseInt item of
                  None \<Rightarrow> saveError (json_UnmarshalTypeError (''number '' @ item) ''delaySeconds'') d
                | Some n \<Rightarrow> d\<lparr>target := (target d)\<lparr>DelaySeconds := n\<rparr>\<rparr>))"

text \<open>
  \<^verbatim>\<open>literalStore\<close> of a top-level literal into the struct, by the literal's first
  byte: \<^verbatim>\<open>null\<close> leaves the struct as it is, every other literal is a type error.
\<close>

definition literalStore_struct :: "char \<Rightarrow> decodeState \<Rightarrow> decodeState" where
  "literalStore_struct c d =
     (if c = CHR ''n'' then d
      else if c = CHR ''t'' \<or> c = CHR ''f'' then saveError (json_UnmarshalTypeError ''bool'' []) d
      else if c = CHR 0x22 then saveError (json_UnmarshalTypeError ''string'' []) d
      else saveError (json_UnmarshalTypeError ''number'' []) d)"

text \<open>
  What \<^verbatim>\<open>decodeState.value\<close>, \<^verbatim>\<open>object\<close> and \<^verbatim>\<open>array\<close> do at one byte of the
  value, told by the scanner's stack \<open>stk\<close> before the byte and the opcode \<open>opc\<close> the
  scanner returns for it:
  \<^item> on the empty stack the top-level value begins: a literal is stored into the struct,
    an array is a type error, an object is walked;
  \<^item> with the top-level object alone on the stack and a key expected, the bytes of a
    literal are the key's;
  \<^item> with the top-level object alone on the stack and a value expected, the bytes of a
    literal are the member's value; an object or array is a type error when the key
    selects the field, and is skipped; a comma or the closing brace ends the member, and
    a literal value is stored when the key selects the field;
  \<^item> every other byte is white space, punctuation, or inside a nested value that is
    skipped.
\<close>

definition decode_byte :: "parseState list \<Rightarrow> opcode \<Rightarrow> char \<Rightarrow> decodeState \<Rightarrow> decodeState" where
  "decode_byte stk opc c d =
     (if stk = [] then
        (if opc = scanBeginLiteral then literalStore_struct c d
         else if opc = scanBeginArray then saveError (json_UnmarshalTypeError ''array'' []) d
         else d)
      else if stk = [parseObjectKey] then
        (if opc = scanBeginLiteral \<or> opc = scanContinue then d\<lparr>keyItem := keyItem d @ [c]\<rparr>
         else d)
      else if stk = [parseObjectValue] then
        (if opc = scanBeginLiteral \<or> opc = scanContinue then d\<lparr>valueItem := valueItem d @ [c]\<rparr>
         else if opc = scanBeginObject then
           (if fieldMatch (keyItem d)
            then saveError (json_UnmarshalTypeError ''object'' ''delaySeconds'') d else d)
         else if opc = scanBeginArray then
           (if fieldMatch (keyItem d)
            then saveError (json_UnmarshalTypeError ''array'' ''delaySeconds'') d else d)
         else if opc = scanObjectValue \<or> opc = scanEndObject then
           (if valueItem d = [] then d
            else if fieldMatch (keyItem d) then literalStore_field (valueItem d) d
            else d)\<lparr>keyItem := [], valueItem := []\<rparr>
         else d)
      else d)"

fun unmarshal_scan :: "scanner \<Rightarrow> decodeState \<Rightarrow> string \<Rightarrow> decodeState" where
  "unmarshal_scan s d [] = d"
| "unmarshal_scan s d (c # cs) =
     (case scanner_step s c of (opc, s1) \<Rightarrow>
        unmarshal_scan s1 (decode_byte (parseState s) opc c d) cs)"

text \<open>
  \<^verbatim>\<open>decodeState.unmarshal\<close>: the bytes of one value, scanned again from a reset
  scanner; it returns the saved error and the value as it was left.
\<close>

definition unmarshal :: "string \<Rightarrow> payload \<Rightarrow> go_error option \<times> payload" where
  "unmarshal data v =
     (let d = unmarshal_scan scanner_reset
                \<lparr>target = v, savedError = None, keyItem = [], valueItem = []\<rparr> data
      in (savedError d, target d))"

text \<open>
  \<^verbatim>\<open>json.NewDecoder(r).Decode(&v)\<close> on a reader that delivers \<open>body\<close>: the first
  JSON value is read with \<^verbatim>\<open>readValue\<close> and unmarshalled into \<open>v\<close>.
\<close>

definition Decode :: "string \<Rightarrow> payload \<Rightarrow> go_error option \<times> payload" where
  "Decode body v =
     (case readValue body of
        Inl e \<Rightarrow> (Some e, v)
      | Inr n \<Rightarrow> unmarshal (take n body) v)"

subsection \<open>time.Duration\<close>

text \<open>
  A \<^verbatim>\<open>time.Duration\<close> is an \<^verbatim>\<open>int64\<close> count of nanoseconds. \<open>wrap64\<close> is the
  value an \<^verbatim>\<open>int64\<close> operation keeps of its mathematical result, \<open>uint64\<close> the
  conversion \<^verbatim>\<open>uint64(d)\<close>, and \<open>go_rem\<close> Go's \<^verbatim>\<open>%\<close>, whose result has the sign
  of the dividend.
\<close>

definition wrap64 :: "int \<Rightarrow> int" where
  "wrap64 i = (i + 9223372036854775808) mod 18446744073709551616 - 9223372036854775808"

definition uint64 :: "int \<Rightarrow> nat" where
  "uint64 i = nat (i mod 18446744073709551616)"

definition go_rem :: "int \<Rightarrow> int \<Rightarrow> int" where
  "go_rem a b = sgn a * (\<bar>a\<bar> mod \<bar>b\<bar>)"

definition Second :: int where
  "Second = 1000000000"

definition minDuration :: int where
  "minDuration = - 9223372036854775808"

definition maxDuration :: int where
  "maxDuration = 9223372036854775807"

text \<open>\<^verbatim>\<open>lessThanHalf(x, y)\<close>: \<^verbatim>\<open>uint64(x)+uint64(x) < uint64(y)\<close>.\<close>

definition lessThanHalf :: "int \<Rightarrow> int \<Rightarrow> bool" where
  "lessThanHalf x y = ((uint64 x + uint64 x) mod 18446744073709551616 < uint64 y)"

text \<open>\<^verbatim>\<open>func (d Duration) Round(m Duration) Duration\<close>.\<close>

definition Duration_Round :: "int \<Rightarrow> int \<Rightarrow> int" where
  "Duration_Round d m =
     (if m \<le> 0 then d
      else if d < 0 then
        (if lessThanHalf (wrap64 (- go_rem d m)) m then wrap64 (d + wrap64 (- go_rem d m))
         else if wrap64 (wrap64 (d - m) + wrap64 (- go_rem d m)) < d
         then wrap64 (wrap64 (d - m) + wrap64 (- go_rem d m))
         else minDuration)
      else
        (if lessThanHalf (go_rem d m) m then wrap64 (d - go_rem d m)
         else if wrap64 (wrap64 (d + m) - go_rem d m) > d
         then wrap64 (wrap64 (d + m) - go_rem d m)
         else maxDuration))"

text \<open>
  \<^verbatim>\<open>fmtFrac(buf, v, prec)\<close> writes the last \<open>prec\<close> decimal digits of \<open>v\<close> in front of
  the text \<open>buf\<close>, without the zeros at their end, and a point in front of them when one
  was written; it returns the text and \<open>v\<close> without those digits. \<open>fmtFrac_loop\<close>
  is its loop, with the variable \<^verbatim>\<open>print\<close>.
\<close>

fun fmtFrac_loop :: "nat \<Rightarrow> string \<Rightarrow> bool \<Rightarrow> nat \<Rightarrow> string \<times> bool \<times> nat" where
  "fmtFrac_loop 0 buf print v = (buf, print, v)"
| "fmtFrac_loop (Suc i) buf print v =
     (if print \<or> v mod 10 \<noteq> 0
      then fmtFrac_loop i (digitChar (v mod 10) # buf) True (v div 10)
      else fmtFrac_loop i buf False (v div 10))"

definition fmtFrac :: "string \<Rightarrow> nat \<Rightarrow> nat \<Rightarrow> string \<times> nat" where
  "fmtFrac buf v prec =
     (if fst (snd (fmtFrac_loop prec buf False v))
      then (CHR ''.'' # fst (fmtFrac_loop prec buf False v), snd (snd (fmtFrac_loop prec buf False v)))
      else (fst (fmtFrac_loop prec buf False v), snd (snd (fmtFrac_loop prec buf False v))))"

text \<open>\<^verbatim>\<open>fmtInt(buf, v)\<close> writes \<open>v\<close> in decimal in front of the text \<open>buf\<close>.\<close>

fun fmtInt_loop :: "string \<Rightarrow> nat \<Rightarrow> string" where
  "fmtInt_loop buf v = (if v > 0 then fmtInt_loop (digitChar (v mod 10) # buf) (v div 10) else buf)"

declare fmtInt_loop.simps [simp del]

definition fmtInt :: "string \<Rightarrow> nat \<Rightarrow> string" where
  "fmtInt buf v = (if v = 0 then CHR ''0'' # buf else fmtInt_loop buf v)"

text \<open>
  \<^verbatim>\<open>func (d Duration) String() string\<close>, with \<^verbatim>\<open>format\<close> inlined: the text is built
  from its end. \<open>format_abs\<close> is the part of \<^verbatim>\<open>format\<close> between the computation of
  the magnitude \<^verbatim>\<open>u\<close> and the sign. The micro sign is the two bytes \<^verbatim>\<open>0xC2 0xB5\<close>.
\<close>

definition format_abs :: "nat \<Rightarrow> string" where
  "format_abs u =
     (if u < 1000000000 then
        (if u = 0 then ''0s''
         else if u < 1000 then fmtInt (fst (fmtFrac ''ns'' u 0)) (snd (fmtFrac ''ns'' u 0))
         else if u < 1000000
         then fmtInt (fst (fmtFrac [CHR 0xC2, CHR 0xB5, CHR ''s''] u 3))
                (snd (fmtFrac [CHR 0xC2, CHR 0xB5, CHR ''s''] u 3))
         else fmtInt (fst (fmtFrac ''ms'' u 6)) (snd (fmtFrac ''ms'' u 6)))
      else
        (if snd (fmtFrac ''s'' u 9) div 60 > 0 then
           (if snd (fmtFrac ''s'' u 9) div 60 div 60 > 0
            then fmtInt
                   (CHR ''h'' #
                    fmtInt (CHR ''m'' # fmtInt (fst (fmtFrac ''s'' u 9)) (snd (fmtFrac ''s'' u 9) mod 60))
                      (snd (fmtFrac ''s'' u 9) div 60 mod 60))
                   (snd (fmtFrac ''s'' u 9) div 60 div 60)
            else fmtInt (CHR ''m'' # fmtInt (fst (fmtFrac ''s'' u 9)) (snd (fmtFrac ''s'' u 9) mod 60))
                   (snd (fmtFrac ''s'' u 9) div 60 mod 60))
         else fmtInt (fst (fmtFrac ''s'' u 9)) (snd (fmtFrac ''s'' u 9) mod 60)))"

definition Duration_String :: "int \<Rightarrow> string" where
  "Duration_String d =
     (if d < 0
      then CHR ''-'' # format_abs ((18446744073709551616 - uint64 d) mod 18446744073709551616)
      else format_abs (uint64 d))"

section \<open>main.go: parseDelay\<close>

text \<open>
  A request as the handlers read it: the method and the body (\<open>None\<close> is Go's
  \<^verbatim>\<open>r.Body == nil\<close>; a server request without a body carries the empty body).
\<close>

record request =
  Method :: string
  Body :: "string option"

text \<open>
  \<^verbatim>\<open>func parseDelay(r *http.Request) (int, error)\<close>. The result is \<open>Inr\<close> the delay or
  \<open>Inl\<close> the error.
\<close>

definition parseDelay :: "request \<Rightarrow> go_error + int" where
  "parseDelay r =
     (case Body r of
        None \<Rightarrow> Inr 0
      | Some body \<Rightarrow>
          (case Decode body \<lparr>DelaySeconds = 0\<rparr> of
             (Some e, payload) \<Rightarrow>
               if errors_Is e io_EOF then Inr 0
               else Inl (fmt_Errorf_w ''invalid request body: '' e)
           | (None, payload) \<Rightarrow>
               if DelaySeconds payload < 0
               then Inl (errors_New ''delaySeconds must be zero or positive'')
               else Inr (DelaySeconds payload)))"

section \<open>main.go: the power action handlers\<close>

text \<open>
  What a handler reads from outside the request: \<^verbatim>\<open>runtime.GOOS\<close>; what
  \<^verbatim>\<open>exec.Command(name, args...).Run()\<close> returns for a command (\<open>None\<close> is Go's
  \<^verbatim>\<open>nil\<close>, the command ran and exited with status 0); and the texts that
  \<^verbatim>\<open>encoding/json\<close> gives its errors.
\<close>

record env =
  GOOS :: string
  cmd_Run :: "string \<Rightarrow> string list \<Rightarrow> go_error option"
  lib_Error :: "go_error \<Rightarrow> string"

text \<open>
  What a handler changes outside the response: the lines written with \<^verbatim>\<open>log.Printf\<close>
  (without the time stamp the logger puts in front) and the commands run, oldest first.
\<close>

record world =
  log :: "string list"
  spawned :: "(string \<times> string list) list"

text \<open>
  The response written to the \<^verbatim>\<open>http.ResponseWriter\<close>: the \<^verbatim>\<open>Content-Type\<close>
  header, the status code and the body. The body is either the output of
  \<^verbatim>\<open>json.NewEncoder(w).Encode(payload)\<close> for a \<^verbatim>\<open>map[string]string\<close>, kept as the
  map's entries, or plain bytes.
\<close>

datatype body = json_Encode "(string \<times> string) list" | Bytes string

record response =
  contentType :: string
  statusCode :: nat
  body :: body

text \<open>\<^verbatim>\<open>func writeJSON(w http.ResponseWriter, statusCode int, payload interface{})\<close>.\<close>

definition writeJSON :: "nat \<Rightarrow> (string \<times> string) list \<Rightarrow> response" where
  "writeJSON code payload =
     \<lparr>contentType = ''application/json'', statusCode = code, body = json_Encode payload\<rparr>"

text \<open>
  \<^verbatim>\<open>http.Error(w, error, code)\<close>: a plain-text response whose body is the text and a
  line feed.
\<close>

definition http_Error :: "string \<Rightarrow> nat \<Rightarrow> response" where
  "http_Error text code =
     \<lparr>contentType = ''text/plain; charset=utf-8'', statusCode = code,
      body = Bytes (text @ [CHR 0x0A])\<rparr>"

text \<open>\<^verbatim>\<open>%v\<close> of a \<^verbatim>\<open>[]string\<close>: the elements between brackets, a space between two.\<close>

fun joinSpace :: "string list \<Rightarrow> string" where
  "joinSpace [] = []"
| "joinSpace [x] = x"
| "joinSpace (x # y # ys) = x @ '' '' @ joinSpace (y # ys)"

definition fmt_v_strings :: "string list \<Rightarrow> string" where
  "fmt_v_strings xs = ''['' @ joinSpace xs @ '']''"

text \<open>
  \<^verbatim>\<open>func handlePowerAction(w, r, baseArgs []string, successMessage string)\<close>. It
  returns the response and the world after the call.
\<close>

definition handlePowerAction ::
  "env \<Rightarrow> world \<Rightarrow> request \<Rightarrow> string list \<Rightarrow> string \<Rightarrow> response \<times> world" where
  "handlePowerAction e w r baseArgs successMessage =
     (if Method r \<noteq> ''POST'' then (http_Error ''method not allowed'' 405, w)
      else if GOOS e \<noteq> ''windows''
      then (writeJSON 501
              [(''message'', ''Power control commands are available only on Windows hosts.'')], w)
      else
        (case parseDelay r of
           Inl perr \<Rightarrow> (writeJSON 400 [(''message'', Error (lib_Error e) perr)], w)
         | Inr delaySeconds \<Rightarrow>
             (case cmd_Run e ''shutdown'' (([] @ baseArgs) @ [''/t'', Itoa delaySeconds]) of
                Some rerr \<Rightarrow>
                  (writeJSON 500 [(''message'', ''Failed to execute power command.'')],
                   w\<lparr>spawned :=
                        spawned w @ [(''shutdown'', ([] @ baseArgs) @ [''/t'', Itoa delaySeconds])],
                      log :=
                        log w @
                        [''power command failed (''
                         @ fmt_v_strings (([] @ baseArgs) @ [''/t'', Itoa delaySeconds])
                         @ ''): '' @ Error (lib_Error e) rerr]\<rparr>)
              | None \<Rightarrow>
                  (writeJSON 200
                     [(''message'',
                       if delaySeconds > 0
                       then successMessage @ '' It will run in ''
                            @ Duration_String
                                (Duration_Round (wrap64 (wrap64 delaySeconds * Second)) Second)
                            @ ''.''
                       else successMessage)],
                   w\<lparr>spawned :=
                        spawned w
                        @ [(''shutdown'', ([] @ baseArgs) @ [''/t'', Itoa delaySeconds])]\<rparr>))))"

definition shutdownHandler :: "env \<Rightarrow> world \<Rightarrow> request \<Rightarrow> response \<times> world" where
  "shutdownHandler e w r =
     handlePowerAction e w r [''/s'']
       ''Shutdown command staged. The machine is powering off.''"

definition restartHandler :: "env \<Rightarrow> world \<Rightarrow> request \<Rightarrow> response \<times> world" where
  "restartHandler e w r =
     handlePowerAction e w r [''/r'']
       ''Restart command staged. The machine is restarting.''"

definition restartFirmwareHandler :: "env \<Rightarrow> world \<Rightarrow> request \<Rightarrow> response \<times> world" where
  "restartFirmwareHandler e w r =
     handlePowerAction e w r [''/r'', ''/fw'']
       ''Firmware restart command staged. The machine will reboot into BIOS/UEFI.''"

section \<open>main.go and service_windows.go: starting and stopping\<close>

text \<open>
  \<^verbatim>\<open>func runHTTPServer(ctx context.Context) error\<close>, as far as its result goes:
  \<open>served\<close> is what \<^verbatim>\<open>srv.ListenAndServe()\<close> returns when it returns: the error of
  the failed \<^verbatim>\<open>net.Listen\<close> when the address cannot be bound, and
  \<^verbatim>\<open>http.ErrServerClosed\<close> after \<^verbatim>\<open>srv.Shutdown\<close>.
\<close>

definition runHTTPServer :: "go_error option \<Rightarrow> go_error option" where
  "runHTTPServer served =
     (case served of
        None \<Rightarrow> None
      | Some lerr \<Rightarrow> if \<not> errors_Is lerr http_ErrServerClosed then Some lerr else None)"

text \<open>
  The types of \<^verbatim>\<open>golang.org/x/sys/windows/svc\<close> that \<^verbatim>\<open>Execute\<close> uses: the states
  and commands of a service, the controls it accepts, and the status it reports.
\<close>

datatype svc_State =
  Stopped | StartPending | StopPending | Running | ContinuePending | PausePending | Paused

datatype svc_Cmd =
  Stop | Pause | Continue | Interrogate | Shutdown | ParamChange | OtherCmd nat

datatype svc_Accepted = AcceptStop | AcceptShutdown | AcceptPauseAndContinue

record svc_Status =
  State :: svc_State
  Accepts :: "svc_Accepted set"

text \<open>
  \<^verbatim>\<open>Execute\<close> talks over three channels. What it sends on \<^verbatim>\<open>changes\<close> is kept in
  order in \<open>changes\<close>; \<open>svc_log\<close> holds the lines it logs and \<open>cancelled\<close> tells
  whether it has called \<^verbatim>\<open>cancel()\<close>. What it receives is given by a schedule, the
  list of the cases its \<^verbatim>\<open>select\<close> takes, in order: \<open>Done\<close> when the value of
  \<^verbatim>\<open>runHTTPServer\<close> arrives on \<^verbatim>\<open>done\<close>, \<open>Change c\<close> when the service manager's
  request \<open>c\<close> arrives on \<^verbatim>\<open>r\<close>. A schedule that ends leaves \<^verbatim>\<open>Execute\<close> waiting in
  its \<^verbatim>\<open>select\<close>: the result is \<open>None\<close>.
\<close>

datatype event = Done | Change svc_Cmd

record svc_world =
  changes :: "svc_Status list"
  svc_log :: "string list"
  cancelled :: bool

definition accepts :: "svc_Accepted set" where
  "accepts = {AcceptStop, AcceptShutdown}"

text \<open>
  The \<^verbatim>\<open>for { select { ... } }\<close> loop of \<^verbatim>\<open>Execute\<close>. \<open>srv\<close> is the value that
  \<^verbatim>\<open>runHTTPServer\<close> returns and \<^verbatim>\<open>done\<close> delivers; after \<^verbatim>\<open>cancel()\<close> the
  server is taken to return, so that the receive \<^verbatim>\<open><-done\<close> of the stop branch gets
  that value too.
\<close>

fun Execute_loop ::
  "(go_error \<Rightarrow> string) \<Rightarrow> go_error option \<Rightarrow> svc_Status \<Rightarrow> event list \<Rightarrow> svc_world
     \<Rightarrow> (bool \<times> nat) option \<times> svc_world" where
  "Execute_loop lib srv status [] p = (None, p)"
| "Execute_loop lib srv status (Done # evs) p =
     (Some (False, 0),
      p\<lparr>svc_log :=
           (case srv of
              None \<Rightarrow> svc_log p
            | Some serr \<Rightarrow> svc_log p @ [''service server exited: '' @ Error lib serr]),
         changes := changes p @ [status\<lparr>State := Stopped, Accepts := {}\<rparr>]\<rparr>)"
| "Execute_loop lib srv status (Change c # evs) p =
     (if c = Interrogate
      then Execute_loop lib srv status evs (p\<lparr>changes := changes p @ [status]\<rparr>)
      else if c = Stop \<or> c = Shutdown
      then (Some (True, 0),
            p\<lparr>changes :=
                 changes p
                 @ [status\<lparr>State := StopPending, Accepts := accepts\<rparr>,
                    status\<lparr>State := Stopped, Accepts := {}\<rparr>],
               cancelled := True,
               svc_log :=
                 (case srv of
                    None \<Rightarrow> svc_log p
                  | Some serr \<Rightarrow>
                      if \<not> errors_Is serr context_Canceled
                      then svc_log p @ [''shutdown error: '' @ Error lib serr]
                      else svc_log p)\<rparr>)
      else Execute_loop lib srv status evs p)"

text \<open>
  \<^verbatim>\<open>func (windowsService) Execute(args, r, changes) (bool, uint32)\<close>, started with
  nothing sent yet.
\<close>

definition Execute ::
  "(go_error \<Rightarrow> string) \<Rightarrow> go_error option \<Rightarrow> event list \<Rightarrow> (bool \<times> nat) option \<times> svc_world" where
  "Execute lib srv evs =
     Execute_loop lib srv \<lparr>State = Running, Accepts = accepts\<rparr> evs
       \<lparr>changes = [\<lparr>State = StartPending, Accepts = {}\<rparr>, \<lparr>State = Running, Accepts = accepts\<rparr>],
        svc_log = [], cancelled = False\<rparr>"

text \<open>
  What the process meets when it starts: the answer of \<^verbatim>\<open>svc.IsWindowsService()\<close>;
  what \<^verbatim>\<open>srv.ListenAndServe()\<close> returns; the schedule of the service run; and what
  \<^verbatim>\<open>svc.Run\<close> returns once the handler's \<^verbatim>\<open>Execute\<close> has returned, which may depend
  on the two values \<^verbatim>\<open>Execute\<close> returned and on the statuses it reported, the only
  things \<^verbatim>\<open>svc.Run\<close> gets from the handler.
\<close>

record host =
  IsWindowsService :: "go_error + bool"
  ListenAndServe :: "go_error option"
  schedule :: "event list"
  svc_Run :: "bool \<times> nat \<Rightarrow> svc_Status list \<Rightarrow> go_error option"
  json_Error :: "go_error \<Rightarrow> string"

text \<open>
  \<^verbatim>\<open>func maybeRunService() (bool, error)\<close> of \<^verbatim>\<open>service_windows.go\<close>. \<open>None\<close>
  means that it does not return, because \<^verbatim>\<open>Execute\<close> does not.
\<close>

definition maybeRunService :: "host \<Rightarrow> (bool \<times> go_error option) option" where
  "maybeRunService h =
     (case IsWindowsService h of
        Inl ierr \<Rightarrow> Some (False, Some ierr)
      | Inr isService \<Rightarrow>
          if \<not> isService then Some (False, None)
          else (case Execute (json_Error h) (runHTTPServer (ListenAndServe h)) (schedule h) of
                  (None, p) \<Rightarrow> None
                | (Some res, p) \<Rightarrow> Some (True, svc_Run h res (changes p))))"

text \<open>
  \<^verbatim>\<open>func main()\<close>, as the exit status of the process: \<^verbatim>\<open>log.Fatalf\<close> ends it with
  status 1, returning from \<^verbatim>\<open>main\<close> with status 0. \<open>None\<close> means that the process
  does not end.
\<close>

definition main :: "host \<Rightarrow> nat option" where
  "main h =
     (case maybeRunService h of
        None \<Rightarrow> None
      | Some (handled, Some merr) \<Rightarrow> Some 1
      | Some (handled, None) \<Rightarrow>
          if handled then Some 0
          else (case runHTTPServer (ListenAndServe h) of
                  Some serr \<Rightarrow> Some 1
                | None \<Rightarrow> Some 0))"

section \<open>Running the decoder on given bytes\<close>

text \<open>
  The definitions that the simplifier unfolds to run the scanner, the unquoting of keys
  and the decoder on a given body.
\<close>

lemmas scan_defs =
  readValue_def scanner_reset_def scanner_step_def stateBeginValue_def
  stateBeginValueOrEmpty_def stateBeginString_def stateBeginStringOrEmpty_def stateEndValue_def
  stateEndTop_def stateInString_def stateInStringEsc_def stateInStringEscU_def stateNeg_def
  state0_def state1_def stateDot_def stateDot0_def stateE_def stateESign_def stateE0_def
  stateLetter_def scanner_error_def pushParseState_def popParseState_def maxNestingDepth_def
  isSpace_def isDigit_def isHex_def nonSpace_def

lemmas unquote_defs =
  unquote_def unquoteAt_def DecodeRune_def getu4_def hexVal_def utf16_IsSurrogate_def
  utf16_DecodeRune_def RuneError_def isCont_def foldRune_def fieldMatch_def

lemmas decode_defs =
  Decode_def unmarshal_def decode_byte_def literalStore_field_def literalStore_struct_def
  saveError_def ParseInt_def decimalValue_def digitVal_def

lemmas parseDelay_defs = parseDelay_def scan_defs unquote_defs decode_defs

section \<open>The delay parser\<close>

text \<open>
  C10. \<^verbatim>\<open>parseDelay\<close> accepts bodies that are not one well-formed JSON object. The
  decoder reads the first JSON value only, so the object \<^verbatim>\<open>{"delaySeconds":5}\<close> followed
  by any bytes \<open>rest\<close> whatever (such as \<^verbatim>\<open>garbage\<close>) gives the delay 5, and the body
  \<^verbatim>\<open>null\<close> gives the delay 0; neither gives an error.
\<close>

theorem parseDelay_reads_first_value_only:
  \<open>parseDelay \<lparr>Method = m, Body = Some (''{"delaySeconds":5}'' @ rest)\<rparr> = Inr 5
   \<and> parseDelay \<lparr>Method = m, Body = Some ''{"delaySeconds":5}garbage''\<rparr> = Inr 5
   \<and> parseDelay \<lparr>Method = m, Body = Some ''null''\<rparr> = Inr 0\<close>
  by (simp add: parseDelay_defs cong: prod.case_cong_weak)

end
